theory Spec2Isabelle
  imports Complex_Main
begin

section \<open>Floating-point values as partial reals\<close>

text \<open>
  The likelihood code of HSSM computes on floating-point tensors.  A value is modelled as
  either a real number \<open>Fin x\<close> or \<open>NonFinite\<close>, which stands for the NaN and the
  infinities of IEEE arithmetic: the square root of a negative number, the logarithm of a
  number that is not positive and a division by zero yield \<open>NonFinite\<close>, every
  arithmetic operation on \<open>NonFinite\<close> yields \<open>NonFinite\<close> again (in particular
  \<open>0 * NonFinite = NonFinite\<close>, as \<open>0 * nan\<close> is \<open>nan\<close>), and a comparison with
  it is false.  Rounding, overflow and underflow are not modelled: on finite values the
  operations are those of the reals.
\<close>

datatype flt = Fin real | NonFinite

instantiation flt :: "{zero, one, plus, minus, uminus, times, inverse}"
begin

definition zero_flt :: flt where "zero_flt = Fin 0"

definition one_flt :: flt where "one_flt = Fin 1"

fun plus_flt :: "flt \<Rightarrow> flt \<Rightarrow> flt" where
  "plus_flt (Fin x) (Fin y) = Fin (x + y)"
| "plus_flt _ _ = NonFinite"

fun minus_flt :: "flt \<Rightarrow> flt \<Rightarrow> flt" where
  "minus_flt (Fin x) (Fin y) = Fin (x - y)"
| "minus_flt _ _ = NonFinite"

fun uminus_flt :: "flt \<Rightarrow> flt" where
  "uminus_flt (Fin x) = Fin (- x)"
| "uminus_flt NonFinite = NonFinite"

fun times_flt :: "flt \<Rightarrow> flt \<Rightarrow> flt" where
  "times_flt (Fin x) (Fin y) = Fin (x * y)"
| "times_flt _ _ = NonFinite"

fun divide_flt :: "flt \<Rightarrow> flt \<Rightarrow> flt" where
  "divide_flt (Fin x) (Fin y) = (if y = 0 then NonFinite else Fin (x / y))"
| "divide_flt _ _ = NonFinite"

fun inverse_flt :: "flt \<Rightarrow> flt" where
  "inverse_flt (Fin x) = (if x = 0 then NonFinite else Fin (inverse x))"
| "inverse_flt NonFinite = NonFinite"

instance ..

end

text \<open>Addition and multiplication stay associative and commutative with \<open>NonFinite\<close>.\<close>

instance flt :: comm_monoid_add
proof
  fix x y z :: flt
  show "x + y = y + x"
    by (cases x; cases y) simp_all
  show "0 + x = x"
    by (cases x) (simp_all add: zero_flt_def)
  show "x + y + z = x + (y + z)"
    by (cases x; cases y; cases z) simp_all
qed

instance flt :: comm_monoid_mult
proof
  fix x y z :: flt
  show "x * y = y * x"
    by (cases x; cases y) simp_all
  show "1 * x = x"
    by (cases x) (simp_all add: one_flt_def)
  show "x * y * z = x * (y * z)"
    by (cases x; cases y; cases z) simp_all
qed

instance flt :: numeral ..

text \<open>The elementwise tensor functions used by the source.\<close>

fun fsqrt :: "flt \<Rightarrow> flt" where
  "fsqrt (Fin x) = (if x < 0 then NonFinite else Fin (sqrt x))"
| "fsqrt NonFinite = NonFinite"

fun flog :: "flt \<Rightarrow> flt" where
  "flog (Fin x) = (if x \<le> 0 then NonFinite else Fin (ln x))"
| "flog NonFinite = NonFinite"

fun fexp :: "flt \<Rightarrow> flt" where
  "fexp (Fin x) = Fin (exp x)"
| "fexp NonFinite = NonFinite"

fun fsin :: "flt \<Rightarrow> flt" where
  "fsin (Fin x) = Fin (sin x)"
| "fsin NonFinite = NonFinite"

fun fabs :: "flt \<Rightarrow> flt" where
  "fabs (Fin x) = Fin \<bar>x\<bar>"
| "fabs NonFinite = NonFinite"

text \<open>\<open>maximum\<close> propagates NaN, as numpy's does.\<close>

fun fmaximum :: "flt \<Rightarrow> flt \<Rightarrow> flt" where
  "fmaximum (Fin x) (Fin y) = Fin (max x y)"
| "fmaximum _ _ = NonFinite"

text \<open>\<open>lt\<close>, \<open>gt\<close> and \<open>less_equal\<close>: false as soon as one side is not a number.\<close>

fun flt_lt :: "flt \<Rightarrow> flt \<Rightarrow> bool" where
  "flt_lt (Fin x) (Fin y) = (x < y)"
| "flt_lt _ _ = False"

fun flt_le :: "flt \<Rightarrow> flt \<Rightarrow> bool" where
  "flt_le (Fin x) (Fin y) = (x \<le> y)"
| "flt_le _ _ = False"

definition flt_gt :: "flt \<Rightarrow> flt \<Rightarrow> bool" where
  "flt_gt x y = flt_lt y x"

text \<open>A boolean tensor used in arithmetic is 1 where true and 0 where false.\<close>

definition as_float :: "bool \<Rightarrow> flt" where
  "as_float b = (if b then Fin 1 else Fin 0)"

text \<open>\<open>switch(c, x, y)\<close> selects elementwise; the branch not selected is dropped.\<close>

definition switch :: "bool \<Rightarrow> flt \<Rightarrow> flt \<Rightarrow> flt" where
  "switch c x y = (if c then x else y)"

text \<open>
  \<open>max(r, axis=0)\<close> and \<open>sum(r, axis=0)\<close> reduce over the term index, given here as
  a list.  A maximum over no terms has no finite value.
\<close>

fun tmax :: "flt list \<Rightarrow> flt" where
  "tmax [] = NonFinite"
| "tmax (x # xs) = fold fmaximum xs x"

definition tsum :: "flt list \<Rightarrow> flt" where
  "tsum xs = sum_list xs"

section \<open>The analytical likelihood (likelihoods/analytical.py)\<close>

text \<open>
  The source works on vectors with one entry per trial, and on a matrix with one row per
  term of the series.  All its operations are elementwise in the trial, so each function
  is given here for one trial; the term axis is a list.
\<close>

definition LOGP_LB :: real where
  "LOGP_LB = - 66.1"

text \<open>
  \<open>compute_k\<close>: the regime selector, true where the fast expansion is to be used.  The
  names \<open>u_a\<close> ... \<open>u_e\<close> stand for the source's \<open>_a\<close> ... \<open>_e\<close> and \<open>uu_b\<close> ...
  \<open>uu_e\<close> for its \<open>__b\<close> ... \<open>__e\<close>.
\<close>

definition compute_k :: "flt \<Rightarrow> flt \<Rightarrow> bool" where
  "compute_k rt err =
     (let pi_rt_err = Fin pi * rt * err;
          u_a = 2 * fsqrt pi_rt_err * err;
          u_b = 2 + fsqrt (- 2 * rt * flog u_a);
          u_c = fsqrt rt + 1;
          u_d = fmaximum u_b u_c;
          u_e = as_float (flt_lt u_a 1);
          ks = u_e * u_d + (1 - u_e) * 2;
          uu_b = 1 / (Fin pi * fsqrt rt);
          uu_c = fsqrt (- 2 * flog pi_rt_err / (Fin pi ^ 2 * rt));
          uu_d = fmaximum uu_b uu_c;
          uu_e = as_float (flt_lt pi_rt_err 1);
          kl = uu_e * uu_d + (1 - uu_e) * uu_b
      in flt_lt ks kl)"

text \<open>
  \<open>arange(-floor((k_terms - 1) / 2), ceil((k_terms - 1) / 2) + 1)\<close>: the integers from
  \<open>-floor((k_terms - 1) / 2)\<close> up to and including \<open>ceil((k_terms - 1) / 2)\<close>.
\<close>

definition fast_range :: "int \<Rightarrow> int list" where
  "fast_range k_terms =
     [- \<lfloor>real_of_int (k_terms - 1) / 2\<rfloor> .. \<lceil>real_of_int (k_terms - 1) / 2\<rceil>]"

definition ftt01w_fast :: "flt \<Rightarrow> flt \<Rightarrow> int \<Rightarrow> flt" where
  "ftt01w_fast tt w k_terms =
     (let k = map (\<lambda>i. Fin (real_of_int i)) (fast_range k_terms);
          y = map (\<lambda>ki. w + 2 * ki) k;
          r = map (\<lambda>yi. - (yi ^ 2) / (2 * tt)) y;
          c = tmax r;
          p = fexp c * tsum (map (\<lambda>(yi, ri). yi * fexp (ri - c)) (zip y r))
      in p / fsqrt (2 * Fin pi * tt ^ 3))"

definition ftt01w_slow :: "flt \<Rightarrow> flt \<Rightarrow> int \<Rightarrow> flt" where
  "ftt01w_slow tt w k_terms =
     (let k = map (\<lambda>i. Fin (real_of_int i)) [1 .. k_terms];
          y = map (\<lambda>ki. ki * fsin (ki * Fin pi * w)) k;
          r = map (\<lambda>ki. - (ki ^ 2) * Fin pi ^ 2 * tt / 2) k
      in tsum (map (\<lambda>(yi, ri). yi * fexp ri) (zip y r)) * Fin pi)"

definition ftt01w :: "flt \<Rightarrow> flt \<Rightarrow> flt \<Rightarrow> flt \<Rightarrow> int \<Rightarrow> flt" where
  "ftt01w rt a w err k_terms =
     (let tt = rt / a ^ 2;
          lambda_rt = as_float (compute_k rt err);
          p_fast = ftt01w_fast tt w k_terms;
          p_slow = ftt01w_slow tt w k_terms
      in lambda_rt * p_fast + (1 - lambda_rt) * p_slow)"

text \<open>
  \<open>check_parameters(expr, cond, msg)\<close> attaches a condition to a result: when the result
  is evaluated, the wrapped expression is evaluated first and then the condition is
  tested; if it fails, the evaluation raises \<open>ParameterValueError(msg)\<close> in place of
  the value.
\<close>

datatype error = ParameterValueError string | IndexError

definition check_parameters :: "error + 'a \<Rightarrow> bool \<Rightarrow> string \<Rightarrow> error + 'a" where
  "check_parameters expr cond msg =
     (case expr of
        Inl e \<Rightarrow> Inl e
      | Inr x \<Rightarrow> if cond then Inr x else Inl (ParameterValueError msg))"

text \<open>
  One row \<open>(rt, response)\<close> of the data in \<open>logp_ddm\<close>, lines 200 to 224.  The
  argument \<open>a\<close> is the boundary after \<open>a = a * 2.0\<close>.
\<close>

definition logp_ddm_row ::
  "flt \<Rightarrow> flt \<Rightarrow> flt \<Rightarrow> flt \<Rightarrow> flt \<Rightarrow> int \<Rightarrow> flt \<Rightarrow> real \<times> real \<Rightarrow> flt" where
  "logp_ddm_row v a z t err k_terms epsilon row =
     (let rt = fabs (Fin (fst row));
          response = Fin (snd row);
          flip = as_float (flt_gt response 0);
          v_flipped = flip * (- v) + (1 - flip) * v;
          z_flipped = flip * (1 - z) + (1 - flip) * z;
          rt = rt - t;
          negative_rt = as_float (flt_le rt epsilon);
          tt = negative_rt * epsilon + (1 - negative_rt) * rt;
          p = fmaximum (ftt01w tt a z_flipped err k_terms) (fexp (Fin LOGP_LB))
      in negative_rt * Fin LOGP_LB
         + (1 - negative_rt)
           * (flog p - v_flipped * a * z_flipped - (v_flipped ^ 2 * tt / 2) - 2 * flog a))"

definition logp_ddm ::
  "(real \<times> real) list \<Rightarrow> real \<Rightarrow> real \<Rightarrow> real \<Rightarrow> real \<Rightarrow> real \<Rightarrow> int \<Rightarrow> real
     \<Rightarrow> error + flt list" where
  "logp_ddm data v a z t err k_terms epsilon =
     (let a = a * 2;
          logp = map (logp_ddm_row (Fin v) (Fin a) (Fin z) (Fin t) (Fin err) k_terms
                        (Fin epsilon)) data;
          checked_logp = check_parameters (Inr logp) (a \<ge> 0) ''a >= 0'';
          checked_logp = check_parameters checked_logp (z \<ge> 0) ''z >= 0'';
          checked_logp = check_parameters checked_logp (z \<le> 1) ''z <= 1''
      in checked_logp)"



section \<open>The earlier implementation (wfpt.py)\<close>

text \<open>
  \<open>decision_func\<close> returns a closure \<open>inner_func\<close> over three variables that remember
  the last arguments and the last result.  The closure's variables are a record that
  \<open>inner_func\<close> takes and returns; \<open>decision_func\<close> is their initial value.
\<close>

record decision_state =
  internal_rt :: "flt list option"
  internal_err :: "flt option"
  internal_result :: "bool list option"

definition decision_func :: decision_state where
  "decision_func = \<lparr>internal_rt = None, internal_err = None, internal_result = None\<rparr>"

text \<open>Lines 67 to 76 of \<open>inner_func\<close> for one entry of \<open>rt\<close>.\<close>

definition inner_func_row :: "flt \<Rightarrow> flt \<Rightarrow> bool" where
  "inner_func_row rt err =
     (let ks = 2 + fsqrt (- 2 * rt * flog (2 * fsqrt (2 * Fin pi * rt) * err));
          ks = tmax [ks, fsqrt rt + 1];
          ks = switch (flt_lt (2 * fsqrt (2 * Fin pi * rt) * err) 1) ks 2;
          kl = fsqrt (- 2 * flog (Fin pi * rt * err) / (Fin pi ^ 2 * rt));
          kl = tmax [kl, 1 / (Fin pi * fsqrt rt)];
          kl = switch (flt_lt (Fin pi * rt * err) 1) kl (1 / (Fin pi * fsqrt rt))
      in flt_lt ks kl)"

definition inner_func ::
  "decision_state \<Rightarrow> flt list \<Rightarrow> flt \<Rightarrow> bool list \<times> decision_state" where
  "inner_func st rt err =
     (case internal_result st of
        Some res \<Rightarrow>
          if internal_rt st = Some rt \<and> internal_err st = Some err then (res, st)
          else
            let st = st\<lparr>internal_rt := Some rt, internal_err := Some err\<rparr>;
                lambda_rt = map (\<lambda>r. inner_func_row r err) rt
            in (lambda_rt, st\<lparr>internal_result := Some lambda_rt\<rparr>)
      | None \<Rightarrow>
          let st = st\<lparr>internal_rt := Some rt, internal_err := Some err\<rparr>;
              lambda_rt = map (\<lambda>r. inner_func_row r err) rt
          in (lambda_rt, st\<lparr>internal_result := Some lambda_rt\<rparr>))"

definition wfpt_ftt01w_fast :: "flt \<Rightarrow> flt \<Rightarrow> int \<Rightarrow> flt" where
  "wfpt_ftt01w_fast tt w k_terms =
     (let k = map (\<lambda>i. Fin (real_of_int i)) (fast_range k_terms);
          y = map (\<lambda>ki. w + 2 * ki) k;
          r = map (\<lambda>yi. - (yi ^ 2) / 2 / tt) y;
          c = tmax r;
          p = fexp (c + flog (tsum (map (\<lambda>(yi, ri). yi * fexp (ri - c)) (zip y r))))
      in p / fsqrt (2 * Fin pi * tt ^ 3))"

definition wfpt_ftt01w_slow :: "flt \<Rightarrow> flt \<Rightarrow> int \<Rightarrow> flt" where
  "wfpt_ftt01w_slow tt w k_terms =
     (let k = map (\<lambda>i. Fin (real_of_int i)) [1 .. k_terms];
          y = map (\<lambda>ki. ki * fsin (ki * Fin pi * w)) k;
          r = map (\<lambda>ki. - (ki ^ 2) * Fin pi ^ 2 * tt / 2) k
      in tsum (map (\<lambda>(yi, ri). yi * fexp ri) (zip y r)) * Fin pi)"

text \<open>
  \<open>ftt01w\<close> of wfpt.py on a vector of response times, with the state of the closure
  \<open>decision\<close>; the last line is \<open>p * (p > 0)\<close>.
\<close>

definition wfpt_ftt01w ::
  "decision_state \<Rightarrow> flt list \<Rightarrow> flt \<Rightarrow> flt \<Rightarrow> flt \<Rightarrow> int \<Rightarrow> flt list \<times> decision_state" where
  "wfpt_ftt01w st rt a w err k_terms =
     (let (lambda_rt, st) = inner_func st rt err;
          p = map (\<lambda>(rti, li).
                 let tt = rti / a ^ 2;
                     p_fast = wfpt_ftt01w_fast tt w k_terms;
                     p_slow = wfpt_ftt01w_slow tt w k_terms;
                     p = switch li p_fast p_slow
                 in p * as_float (flt_gt p 0)) (zip rt lambda_rt)
      in (p, st))"

section \<open>The bridge to the network's likelihood (wfpt/lan/lan.py)\<close>







section \<open>Closed forms over the reals\<close>

text \<open>
  The values that the functions above take where every intermediate value is finite,
  written with real arithmetic.  \<open>fast_series\<close> is the sum of the terms
  \<open>(w + 2k) exp(-(w + 2k)\<^sup>2 / (2 tt))\<close> over a list of indices \<open>k\<close>, divided by
  \<open>sqrt(2 pi tt\<^sup>3)\<close>, without the subtraction of the largest exponent;
  \<open>slow_series\<close> is the sum of \<open>k sin(k pi w) exp(-k\<^sup>2 pi\<^sup>2 tt / 2)\<close> times \<open>pi\<close>.
\<close>

definition fast_series :: "real \<Rightarrow> real \<Rightarrow> int list \<Rightarrow> real" where
  "fast_series tt w ks =
     (\<Sum>k\<leftarrow>ks. (w + 2 * real_of_int k) * exp (- ((w + 2 * real_of_int k)\<^sup>2) / (2 * tt)))
       / sqrt (2 * pi * tt ^ 3)"

definition slow_series :: "real \<Rightarrow> real \<Rightarrow> int \<Rightarrow> real" where
  "slow_series tt w k_terms =
     (\<Sum>k\<leftarrow>[1..k_terms]. real_of_int k * sin (real_of_int k * pi * w)
         * exp (- ((real_of_int k)\<^sup>2) * pi\<^sup>2 * tt / 2)) * pi"

definition ftt01w_value :: "real \<Rightarrow> real \<Rightarrow> real \<Rightarrow> real \<Rightarrow> int \<Rightarrow> real" where
  "ftt01w_value rt a w err k_terms =
     (if compute_k (Fin rt) (Fin err) then fast_series (rt / a\<^sup>2) w (fast_range k_terms)
      else slow_series (rt / a\<^sup>2) w k_terms)"





text \<open>
  Two rows are flipped choices of each other when they have the same response time
  (whatever its sign, the code takes the absolute value) and opposite responses.
\<close>

definition choice_flipped :: "real \<times> real \<Rightarrow> real \<times> real \<Rightarrow> bool" where
  "choice_flipped row row' \<longleftrightarrow> \<bar>fst row'\<bar> = \<bar>fst row\<bar> \<and> snd row' = - snd row"

text \<open>
  The range of the term index as the specification words it, from
  \<open>ceil((k_terms - 1) / 2)\<close> to \<open>floor((k_terms - 1) / 2)\<close>, to be compared with
  \<open>fast_range\<close>.
\<close>

definition claimed_range :: "int \<Rightarrow> int list" where
  "claimed_range k_terms =
     [\<lceil>real_of_int (k_terms - 1) / 2\<rceil> .. \<lfloor>real_of_int (k_terms - 1) / 2\<rfloor>]"

section \<open>Properties\<close>

subsection \<open>Arithmetic on finite values\<close>

lemma flt_numeral: "(numeral n :: flt) = Fin (numeral n)"
proof (induction n)
  case One
  show ?case by (simp add: one_flt_def)
next
  case (Bit0 n)
  have "(numeral (num.Bit0 n) :: flt) = numeral n + numeral n"
    by (rule numeral_Bit0)
  also have "\<dots> = Fin (numeral n + numeral n)"
    unfolding Bit0.IH by simp
  finally show ?case by (simp only: numeral_Bit0)
next
  case (Bit1 n)
  have "(numeral (num.Bit1 n) :: flt) = numeral n + numeral n + 1"
    by (rule numeral_Bit1)
  also have "\<dots> = Fin (numeral n + numeral n + 1)"
    unfolding Bit1.IH one_flt_def by simp
  finally show ?case by (simp only: numeral_Bit1)
qed

lemma Fin_power: "Fin x ^ n = Fin (x ^ n)"
  by (induction n) (simp_all add: one_flt_def)

lemma blend_select:
  "as_float b * Fin x + (1 - as_float b) * Fin y = Fin (if b then x else y)"
  by (simp add: as_float_def one_flt_def)

lemma tmax_Fin: "tmax (map Fin (x # xs)) = Fin (fold max xs x)"
proof -
  have "fold fmaximum (map Fin xs) (Fin x) = Fin (fold max xs x)" for x
    by (induction xs arbitrary: x) simp_all
  then show ?thesis by simp
qed

lemma tsum_Fin: "tsum (map Fin xs) = Fin (sum_list xs)"
  by (induction xs) (simp_all add: tsum_def zero_flt_def)

subsection \<open>The two expansions and the density on finite arguments\<close>

lemma ftt01w_slow_Fin: "ftt01w_slow (Fin tt) (Fin w) k_terms = Fin (slow_series tt w k_terms)"
proof -
  define tm where "tm = (\<lambda>k. real_of_int k * sin (real_of_int k * pi * w)
         * exp (- ((real_of_int k)\<^sup>2) * pi\<^sup>2 * tt / 2))"
  have "map (\<lambda>(yi, ri). yi * fexp ri)
          (zip (map (\<lambda>ki. ki * fsin (ki * Fin pi * Fin w)) (map (\<lambda>i. Fin (real_of_int i)) xs))
               (map (\<lambda>ki. - (ki ^ 2) * Fin pi ^ 2 * Fin tt / 2) (map (\<lambda>i. Fin (real_of_int i)) xs)))
        = map Fin (map tm xs)" for xs
    by (induction xs) (simp_all add: tm_def flt_numeral Fin_power)
  then have "ftt01w_slow (Fin tt) (Fin w) k_terms = Fin (sum_list (map tm [1..k_terms])) * Fin pi"
    unfolding ftt01w_slow_def Let_def by (simp only: tsum_Fin)
  then show ?thesis
    by (simp add: slow_series_def tm_def)
qed

lemma fast_range_nonempty: "1 \<le> k_terms \<Longrightarrow> fast_range k_terms \<noteq> []"
proof -
  assume "1 \<le> k_terms"
  then have "0 \<le> real_of_int (k_terms - 1) / 2" by simp
  then have "0 \<le> \<lfloor>real_of_int (k_terms - 1) / 2\<rfloor>" "0 \<le> \<lceil>real_of_int (k_terms - 1) / 2\<rceil>"
    by (simp_all only: zero_le_floor zero_le_ceiling)
  then have "- \<lfloor>real_of_int (k_terms - 1) / 2\<rfloor> \<le> \<lceil>real_of_int (k_terms - 1) / 2\<rceil>"
    by linarith
  then show ?thesis
    unfolding fast_range_def by (simp only: upto_Nil not_less)
qed

lemma exp_shift_sum:
  "exp c * (\<Sum>x\<leftarrow>xs. f x * exp (g x - c)) = (\<Sum>x\<leftarrow>xs. f x * exp (g x :: real))"
  by (induction xs) (simp_all add: distrib_left exp_diff)

lemma ftt01w_fast_Fin:
  assumes "0 < tt" and "1 \<le> k_terms"
  shows "ftt01w_fast (Fin tt) (Fin w) k_terms = Fin (fast_series tt w (fast_range k_terms))"
proof -
  obtain i js where ks: "fast_range k_terms = i # js"
    using fast_range_nonempty [OF assms(2)] by (cases "fast_range k_terms") auto
  define yf where "yf = (\<lambda>k. w + 2 * real_of_int k)"
  define rf where "rf = (\<lambda>k. - ((yf k)\<^sup>2) / (2 * tt))"
  define c where "c = fold max (map rf js) (rf i)"
  have y: "map (\<lambda>ki. Fin w + 2 * ki) (map (\<lambda>i. Fin (real_of_int i)) xs) = map (\<lambda>k. Fin (yf k)) xs"
    for xs by (simp add: yf_def flt_numeral)
  have r: "map (\<lambda>yi. - (yi ^ 2) / (2 * Fin tt)) (map (\<lambda>k. Fin (yf k)) xs) = map Fin (map rf xs)"
    for xs using assms(1) by (simp add: rf_def flt_numeral Fin_power)
  have cmax: "tmax (map Fin (map rf (i # js))) = Fin c"
    unfolding c_def using tmax_Fin [of "rf i" "map rf js"] by simp
  have terms: "map (\<lambda>(yi, ri). yi * fexp (ri - Fin c))
                 (zip (map (\<lambda>k. Fin (yf k)) xs) (map Fin (map rf xs)))
               = map Fin (map (\<lambda>k. yf k * exp (rf k - c)) xs)" for xs
    by (induction xs) simp_all
  have pos: "0 < pi * tt ^ 3" "\<not> pi * tt ^ 3 < 0"
    using assms(1) by (simp_all add: not_less)
  have "ftt01w_fast (Fin tt) (Fin w) k_terms
        = Fin (exp c * (\<Sum>k\<leftarrow>i # js. yf k * exp (rf k - c))) / fsqrt (2 * Fin pi * Fin tt ^ 3)"
    unfolding ftt01w_fast_def Let_def ks y r cmax terms tsum_Fin by simp
  also have "\<dots> = Fin ((\<Sum>k\<leftarrow>i # js. yf k * exp (rf k)) / sqrt (2 * pi * tt ^ 3))"
    using pos assms(1) unfolding exp_shift_sum by (simp add: flt_numeral Fin_power)
  finally show ?thesis
    by (simp add: fast_series_def ks yf_def rf_def)
qed

lemma ftt01w_Fin:
  assumes "0 < rt" and "a \<noteq> 0" and "1 \<le> k_terms"
  shows "ftt01w (Fin rt) (Fin a) (Fin w) (Fin err) k_terms = Fin (ftt01w_value rt a w err k_terms)"
proof -
  have tt: "Fin rt / Fin a ^ 2 = Fin (rt / a\<^sup>2)"
    using assms(2) by (simp add: Fin_power)
  have pos: "0 < rt / a\<^sup>2"
    using assms(1,2) by simp
  have "ftt01w (Fin rt) (Fin a) (Fin w) (Fin err) k_terms
        = as_float (compute_k (Fin rt) (Fin err)) * Fin (fast_series (rt / a\<^sup>2) w (fast_range k_terms))
          + (1 - as_float (compute_k (Fin rt) (Fin err))) * Fin (slow_series (rt / a\<^sup>2) w k_terms)"
    unfolding ftt01w_def Let_def tt ftt01w_slow_Fin ftt01w_fast_Fin [OF pos assms(3)] ..
  then show ?thesis
    unfolding blend_select ftt01w_value_def .
qed

subsection \<open>The rows of the log-likelihood\<close>









lemma logp_ddm_row_flip:
  assumes "snd row \<noteq> 0" and "\<bar>fst row'\<bar> = \<bar>fst row\<bar>" and "snd row' = - snd row"
  shows "logp_ddm_row (Fin (- v)) a (Fin (1 - z)) t err k_terms epsilon row'
         = logp_ddm_row (Fin v) a (Fin z) t err k_terms epsilon row"
proof -
  have v: "as_float (flt_gt (Fin (snd row')) 0) * (- Fin (- v))
             + (1 - as_float (flt_gt (Fin (snd row')) 0)) * Fin (- v)
           = as_float (flt_gt (Fin (snd row)) 0) * (- Fin v)
             + (1 - as_float (flt_gt (Fin (snd row)) 0)) * Fin v"
    using assms(1,3) by (simp add: as_float_def flt_gt_def zero_flt_def one_flt_def)
  have z: "as_float (flt_gt (Fin (snd row')) 0) * (1 - Fin (1 - z))
             + (1 - as_float (flt_gt (Fin (snd row')) 0)) * Fin (1 - z)
           = as_float (flt_gt (Fin (snd row)) 0) * (1 - Fin z)
             + (1 - as_float (flt_gt (Fin (snd row)) 0)) * Fin z"
    using assms(1,3) by (simp add: as_float_def flt_gt_def zero_flt_def one_flt_def)
  have rt: "fabs (Fin (fst row')) = fabs (Fin (fst row))"
    using assms(2) by simp
  show ?thesis
    unfolding logp_ddm_row_def Let_def v z rt ..
qed

lemma fast_range_2: "fast_range 2 = [0, 1]"
proof -
  have "\<lfloor>(1::real) / 2\<rfloor> = 0" "\<lceil>(1::real) / 2\<rceil> = 1"
    by (simp_all add: ceiling_eq_iff)
  then show ?thesis
    by (simp add: fast_range_def upto.simps)
qed


subsection \<open>Bounds on pi and e, and the regime selectors on finite arguments\<close>

lemma pi_ge_3: "3 \<le> pi"
  using sin_x_le_x [of "pi / 6"] by (simp add: sin_30)

lemma pi_le_32: "pi \<le> 16 / 5"
proof -
  define x where "x = pi / 6"
  have x0: "0 \<le> x" by (simp add: x_def)
  have "\<bar>sin x - (\<Sum>m<3. sin_coeff m * x ^ m)\<bar> \<le> inverse (fact 3) * \<bar>x\<bar> ^ 3"
    by (rule Maclaurin_sin_bound)
  moreover have "(\<Sum>m<3. sin_coeff m * x ^ m) = x"
    by (simp add: sin_coeff_def numeral_3_eq_3)
  moreover have "sin x = 1 / 2"
    by (simp add: x_def sin_30)
  moreover have "fact 3 = (6::real)"
    by (simp add: numeral_3_eq_3)
  ultimately have "\<bar>1 / 2 - x\<bar> \<le> inverse 6 * x ^ 3"
    using x0 by simp
  moreover have "inverse 6 * x ^ 3 = x ^ 3 / 6"
    by simp
  ultimately have b: "x \<le> 1 / 2 + x ^ 3 / 6"
    by linarith
  have x1: "x \<le> 2 / 3"
    using pi_less_4 by (simp add: x_def)
  have "x ^ 3 \<le> (2 / 3) ^ 3"
    by (rule power_mono [OF x1 x0])
  then have x2: "x \<le> 11 / 20"
    using b by (simp add: power3_eq_cube)
  have "x ^ 3 \<le> (11 / 20) ^ 3"
    by (rule power_mono [OF x2 x0])
  then have "x \<le> 8 / 15"
    using b by (simp add: power3_eq_cube)
  then show ?thesis
    by (simp add: x_def)
qed

lemma exp_1_ge: "269 / 100 \<le> exp (1::real)"
proof -
  have "1 + (1/4) + (1/4)\<^sup>2 / 2 \<le> exp (1/4 :: real)"
    by (rule exp_lower_Taylor_quadratic) simp
  then have "(41 / 32) ^ 4 \<le> exp (1/4 :: real) ^ 4"
    by (intro power_mono) (simp_all add: power2_eq_square)
  also have "exp (1/4 :: real) ^ 4 = exp 1"
    using exp_of_nat_mult [of 4 "1/4 :: real"] by simp
  finally show ?thesis
    by (simp add: power4_eq_xxxx)
qed

lemma exp_1_le: "exp (1::real) \<le> 274 / 100"
proof -
  have "exp (1/64 :: real) \<le> 1 + (1/64) + (1/64)\<^sup>2"
    by (rule exp_bound) simp_all
  then have "exp (1/64 :: real) ^ 64 \<le> (4161 / 4096) ^ 64"
    by (intro power_mono) (simp_all add: power2_eq_square)
  moreover have "exp (1/64 :: real) ^ 64 = exp 1"
    using exp_of_nat_mult [of 64 "1/64 :: real"] by simp
  moreover have "(4161 / 4096 :: real) ^ 64 \<le> 274 / 100"
    by (simp add: power_divide)
  ultimately show ?thesis
    by simp
qed

lemma exp_nat_ge: "(269 / 100) ^ n \<le> exp (real n)"
  using power_mono [OF exp_1_ge, of n] exp_of_nat_mult [of n "1::real"] by simp

lemma exp_nat_le: "exp (real n) \<le> (274 / 100) ^ n"
  using power_mono [OF exp_1_le, of n] exp_of_nat_mult [of n "1::real"] by simp

lemma compute_k_normal:
  assumes "0 < rt" and "0 < err"
    and "2 * sqrt (pi * rt * err) * err < 1" and "pi * rt * err < 1"
  shows "compute_k (Fin rt) (Fin err)
         = (max (2 + sqrt (- 2 * rt * ln (2 * sqrt (pi * rt * err) * err))) (sqrt rt + 1)
            < max (1 / (pi * sqrt rt)) (sqrt (- 2 * ln (pi * rt * err) / (pi\<^sup>2 * rt))))"
proof -
  define q where "q = pi * rt * err"
  define ua where "ua = 2 * sqrt q * err"
  have q: "0 < q" "q < 1"
    using assms by (simp_all add: q_def)
  have ua: "0 < ua" "ua < 1"
    using assms q by (simp_all add: ua_def q_def)
  have e1: "Fin pi * Fin rt * Fin err = Fin q"
    by (simp add: q_def)
  have e2: "2 * fsqrt (Fin q) * Fin err = Fin ua"
    using q by (simp add: ua_def flt_numeral)
  have e3: "flog (Fin ua) = Fin (ln ua)"
    using ua by simp
  have "ln ua < 0"
    using ua by simp
  then have "rt * ln ua \<le> 0"
    using assms(1) by (intro mult_nonneg_nonpos) simp_all
  then have "0 \<le> - 2 * rt * ln ua"
    by simp
  then have e4: "2 + fsqrt (- 2 * Fin rt * Fin (ln ua)) = Fin (2 + sqrt (- 2 * rt * ln ua))"
    by (simp add: flt_numeral)
  have e5: "fsqrt (Fin rt) + 1 = Fin (sqrt rt + 1)"
    using assms(1) by (simp add: one_flt_def)
  have e6: "flt_lt (Fin ua) 1 = True"
    using ua by (simp add: one_flt_def)
  have e7: "(1::flt) / (Fin pi * fsqrt (Fin rt)) = Fin (1 / (pi * sqrt rt))"
    using assms(1) by (simp add: one_flt_def)
  have e8: "flog (Fin q) = Fin (ln q)"
    using q by simp
  have "ln q < 0"
    using q by simp
  moreover have "0 < pi\<^sup>2 * rt"
    using assms(1) by simp
  ultimately have "0 \<le> - 2 * ln q / (pi\<^sup>2 * rt)"
    by (intro divide_nonneg_pos) simp_all
  then have e9: "fsqrt (- 2 * Fin (ln q) / (Fin pi ^ 2 * Fin rt)) = Fin (sqrt (- 2 * ln q / (pi\<^sup>2 * rt)))"
    using assms(1) by (simp add: flt_numeral Fin_power)
  have e10: "flt_lt (Fin q) 1 = True"
    using q by (simp add: one_flt_def)
  show ?thesis
    unfolding compute_k_def Let_def e1 e2 e3 e4 e5 e6 e7 e8 e9 e10
    by (simp add: as_float_def one_flt_def flt_numeral q_def ua_def)
qed

lemma inner_func_row_normal:
  assumes "0 < rt" and "0 < err"
    and "2 * sqrt (2 * pi * rt) * err < 1" and "pi * rt * err < 1"
  shows "inner_func_row (Fin rt) (Fin err)
         = (max (2 + sqrt (- 2 * rt * ln (2 * sqrt (2 * pi * rt) * err))) (sqrt rt + 1)
            < max (sqrt (- 2 * ln (pi * rt * err) / (pi\<^sup>2 * rt))) (1 / (pi * sqrt rt)))"
proof -
  define q where "q = pi * rt * err"
  define x where "x = 2 * sqrt (2 * pi * rt) * err"
  have q: "0 < q" "q < 1"
    using assms by (simp_all add: q_def)
  have x: "0 < x" "x < 1"
    using assms by (simp_all add: x_def)
  have e1: "Fin pi * Fin rt * Fin err = Fin q"
    by (simp add: q_def)
  have "\<not> pi * rt < 0"
    using assms(1) by (simp add: not_less)
  then have e2: "2 * fsqrt (2 * Fin pi * Fin rt) * Fin err = Fin x"
    by (simp add: x_def flt_numeral)
  have e3: "flog (Fin x) = Fin (ln x)"
    using x by simp
  have "ln x < 0"
    using x by simp
  then have "rt * ln x \<le> 0"
    using assms(1) by (intro mult_nonneg_nonpos) simp_all
  then have "0 \<le> - 2 * rt * ln x"
    by simp
  then have e4: "2 + fsqrt (- 2 * Fin rt * Fin (ln x)) = Fin (2 + sqrt (- 2 * rt * ln x))"
    by (simp add: flt_numeral)
  have e5: "fsqrt (Fin rt) + 1 = Fin (sqrt rt + 1)"
    using assms(1) by (simp add: one_flt_def)
  have e6: "flt_lt (Fin x) 1 = True"
    using x by (simp add: one_flt_def)
  have e7: "(1::flt) / (Fin pi * fsqrt (Fin rt)) = Fin (1 / (pi * sqrt rt))"
    using assms(1) by (simp add: one_flt_def)
  have e8: "flog (Fin q) = Fin (ln q)"
    using q by simp
  have "ln q < 0"
    using q by simp
  moreover have "0 < pi\<^sup>2 * rt"
    using assms(1) by simp
  ultimately have "0 \<le> - 2 * ln q / (pi\<^sup>2 * rt)"
    by (intro divide_nonneg_pos) simp_all
  then have e9: "fsqrt (- 2 * Fin (ln q) / (Fin pi ^ 2 * Fin rt)) = Fin (sqrt (- 2 * ln q / (pi\<^sup>2 * rt)))"
    using assms(1) by (simp add: flt_numeral Fin_power)
  have e10: "flt_lt (Fin q) 1 = True"
    using q by (simp add: one_flt_def)
  show ?thesis
    unfolding inner_func_row_def Let_def e1 e2 e3 e4 e5 e6 e7 e8 e9 e10
    by (auto simp add: switch_def q_def x_def max.commute)
qed

lemma ks_term_ge:
  assumes "0 < rt" and "0 < x" and "x \<le> exp (- n)" and "2 \<le> T" and "(T - 2)\<^sup>2 \<le> 2 * rt * n"
  shows "T \<le> 2 + sqrt (- 2 * rt * ln x)"
proof -
  have "ln x \<le> ln (exp (- n))"
    using assms(2,3) by (simp del: ln_exp)
  then have "ln x \<le> - n"
    by simp
  then have "rt * ln x \<le> rt * (- n)"
    using assms(1) by (intro mult_left_mono) simp_all
  then have "2 * rt * n \<le> - 2 * rt * ln x"
    by (simp add: algebra_simps)
  then have "(T - 2)\<^sup>2 \<le> - 2 * rt * ln x"
    using assms(5) by linarith
  then have "sqrt ((T - 2)\<^sup>2) \<le> sqrt (- 2 * rt * ln x)"
    by (simp only: real_sqrt_le_iff)
  then show ?thesis
    using assms(4) by simp
qed

lemma ks_term_less:
  assumes "0 < rt" and "0 < x" and "exp (- n) < x" and "2 < S" and "2 * rt * n \<le> (S - 2)\<^sup>2"
  shows "2 + sqrt (- 2 * rt * ln x) < S"
proof -
  have "ln (exp (- n)) < ln x"
    using assms(2,3) by (simp del: ln_exp)
  then have "- n < ln x"
    by simp
  then have "rt * (- n) < rt * ln x"
    using assms(1) by (intro mult_strict_left_mono) simp_all
  then have "- 2 * rt * ln x < 2 * rt * n"
    by (simp add: algebra_simps)
  then have "- 2 * rt * ln x < (S - 2)\<^sup>2"
    using assms(5) by linarith
  then have "sqrt (- 2 * rt * ln x) < sqrt ((S - 2)\<^sup>2)"
    by (simp only: real_sqrt_less_iff)
  then show ?thesis
    using assms(4) by simp
qed

lemma kl_term_le:
  assumes "0 < rt" and "0 < q" and "exp (- n) \<le> q" and "0 \<le> T" and "2 * n \<le> T\<^sup>2 * (pi\<^sup>2 * rt)"
  shows "sqrt (- 2 * ln q / (pi\<^sup>2 * rt)) \<le> T"
proof -
  have d: "0 < pi\<^sup>2 * rt"
    using assms(1) by simp
  have "- n \<le> ln q"
    using assms(2,3) by (simp add: ln_ge_iff)
  then have "- 2 * ln q \<le> T\<^sup>2 * (pi\<^sup>2 * rt)"
    using assms(5) by linarith
  then have "- 2 * ln q / (pi\<^sup>2 * rt) \<le> T\<^sup>2"
    unfolding pos_divide_le_eq [OF d] .
  then have "sqrt (- 2 * ln q / (pi\<^sup>2 * rt)) \<le> sqrt (T\<^sup>2)"
    by (simp only: real_sqrt_le_iff)
  then show ?thesis
    using assms(4) by simp
qed

lemma kl_term_ge:
  assumes "0 < rt" and "0 < q" and "q \<le> exp (- n)" and "0 \<le> S" and "S\<^sup>2 * (pi\<^sup>2 * rt) \<le> 2 * n"
  shows "S \<le> sqrt (- 2 * ln q / (pi\<^sup>2 * rt))"
proof -
  have d: "0 < pi\<^sup>2 * rt"
    using assms(1) by simp
  have "ln q \<le> ln (exp (- n))"
    using assms(2,3) by (simp del: ln_exp)
  then have "ln q \<le> - n"
    by simp
  then have "S\<^sup>2 * (pi\<^sup>2 * rt) \<le> - 2 * ln q"
    using assms(5) by linarith
  then have "S\<^sup>2 \<le> - 2 * ln q / (pi\<^sup>2 * rt)"
    unfolding pos_le_divide_eq [OF d] .
  then have "sqrt (S\<^sup>2) \<le> sqrt (- 2 * ln q / (pi\<^sup>2 * rt))"
    by (simp only: real_sqrt_le_iff)
  then show ?thesis
    using assms(4) by simp
qed

lemma exp_minus_nat_le: "exp (- real n) \<le> 1 / (269 / 100) ^ n"
proof -
  have "exp (- real n) = 1 / exp (real n)"
    by (simp add: exp_minus inverse_eq_divide)
  also have "\<dots> \<le> 1 / (269 / 100) ^ n"
    by (intro divide_left_mono exp_nat_ge) simp_all
  finally show ?thesis .
qed

lemma exp_minus_nat_ge: "1 / (274 / 100) ^ n \<le> exp (- real n)"
proof -
  have "1 / (274 / 100) ^ n \<le> 1 / exp (real n)"
    by (intro divide_left_mono exp_nat_le) simp_all
  also have "\<dots> = exp (- real n)"
    by (simp add: exp_minus inverse_eq_divide)
  finally show ?thesis .
qed

lemma pi_sq_bounds: "9 \<le> pi\<^sup>2" "pi\<^sup>2 \<le> 256 / 25"
proof -
  show "9 \<le> pi\<^sup>2"
    using power_mono [OF pi_ge_3, of 2] by simp
  show "pi\<^sup>2 \<le> 256 / 25"
    using power_mono [OF pi_le_32, of 2] by (simp add: power2_eq_square)
qed

lemma compute_k_example: "compute_k (Fin (1/5)) (Fin (1/10^15)) = False"
proof -
  define q where "q = pi * (1/5) * (1/10^15)"
  define ua where "ua = 2 * sqrt q * (1/10^15)"
  have q: "0 < q" "3 / (5 * 10^15) \<le> q" "q \<le> 64 / 10^17"
    using pi_ge_3 pi_le_32 by (simp_all add: q_def)
  have "sqrt q \<le> sqrt ((26 / 10^9)\<^sup>2)"
    unfolding real_sqrt_le_iff using q(3) by (simp add: power2_eq_square)
  then have sq: "sqrt q \<le> 26 / 10^9"
    by simp
  have sq0: "0 < sqrt q"
    using q(1) by simp
  have ua: "0 < ua" "ua \<le> 52 / 10^24"
    using sq sq0 by (simp_all add: ua_def)
  have ua1: "ua < 1"
    using ua(2) by simp
  have q1: "q < 1"
    using q(3) by simp
  have "(52 / 10^24 :: real) \<le> 1 / (274 / 100) ^ 49"
    by (simp add: power_divide)
  then have a: "ua \<le> exp (- 49)"
    using ua(2) exp_minus_nat_ge [of 49] by simp
  have "1 / (269 / 100) ^ 36 \<le> (3 / (5 * 10^15) :: real)"
    by (simp add: power_divide)
  then have b: "exp (- 36) \<le> q"
    using q(2) exp_minus_nat_le [of 36] by simp
  have ks: "32 / 5 \<le> 2 + sqrt (- 2 * (1/5) * ln ua)"
    by (rule ks_term_ge [OF _ ua(1) a]) (simp_all add: power2_eq_square)
  have "2 * 36 \<le> (32 / 5)\<^sup>2 * (9 * (1/5 :: real))"
    by (simp add: power2_eq_square)
  also have "\<dots> \<le> (32 / 5)\<^sup>2 * (pi\<^sup>2 * (1/5))"
    using pi_sq_bounds(1) by simp
  finally have "sqrt (- 2 * ln q / (pi\<^sup>2 * (1/5))) \<le> 32 / 5"
    by (intro kl_term_le [OF _ q(1) b]) simp_all
  moreover have "1 / (pi * sqrt (1/5)) \<le> 32 / 5"
  proof -
    have "sqrt ((1/5)\<^sup>2) \<le> sqrt (1/5)"
      unfolding real_sqrt_le_iff by (simp add: power2_eq_square)
    then have "1/5 \<le> sqrt (1/5)"
      by simp
    then have "3 * (1/5) \<le> pi * sqrt (1/5)"
      using pi_ge_3 by (intro mult_mono) simp_all
    then have "1 / (pi * sqrt (1/5)) \<le> 1 / (3 * (1/5))"
      by (intro divide_left_mono) simp_all
    then show ?thesis by simp
  qed
  ultimately have kl: "max (1 / (pi * sqrt (1/5))) (sqrt (- 2 * ln q / (pi\<^sup>2 * (1/5)))) \<le> 32 / 5"
    by simp
  have "\<not> max (2 + sqrt (- 2 * (1/5) * ln ua)) (sqrt (1/5) + 1)
          < max (1 / (pi * sqrt (1/5))) (sqrt (- 2 * ln q / (pi\<^sup>2 * (1/5))))"
    using ks kl by simp
  moreover have "2 * sqrt (pi * (1/5) * (1/10^15)) * (1/10^15) < 1" "pi * (1/5) * (1/10^15) < 1"
    using ua1 q1 unfolding ua_def q_def by simp_all
  ultimately show ?thesis
    unfolding ua_def q_def
    by (subst compute_k_normal) simp_all
qed

lemma inner_func_row_example: "inner_func_row (Fin (1/5)) (Fin (1/10^15)) = True"
proof -
  define q where "q = pi * (1/5) * (1/10^15)"
  define x where "x = 2 * sqrt (2 * pi * (1/5)) * (1/10^15)"
  have q: "0 < q" "3 / (5 * 10^15) \<le> q" "q \<le> 64 / 10^17"
    using pi_ge_3 pi_le_32 by (simp_all add: q_def)
  have q1: "q < 1"
    using q(3) by simp
  have "sqrt 1 \<le> sqrt (2 * pi * (1/5))"
    unfolding real_sqrt_le_iff using pi_ge_3 by simp
  then have s1: "1 \<le> sqrt (2 * pi * (1/5))"
    by simp
  have "sqrt (2 * pi * (1/5)) \<le> sqrt (2\<^sup>2)"
    unfolding real_sqrt_le_iff using pi_le_32 by simp
  then have s2: "sqrt (2 * pi * (1/5)) \<le> 2"
    by simp
  have x: "0 < x" "2 / 10^15 \<le> x" "x < 1"
    using s1 s2 by (simp_all add: x_def)
  have "1 / (269 / 100) ^ 35 < (2 / 10^15 :: real)"
    by (simp add: power_divide)
  moreover have "exp (- 35) \<le> (1 / (269 / 100) ^ 35 :: real)"
    using exp_minus_nat_le [of 35] by simp
  ultimately have c: "exp (- 35) < x"
    using x(2) by linarith
  have "(64 / 10^17 :: real) \<le> 1 / (274 / 100) ^ 34"
    by (simp add: power_divide)
  moreover have "(1 / (274 / 100) ^ 34 :: real) \<le> exp (- 34)"
    using exp_minus_nat_ge [of 34] by simp
  ultimately have d: "q \<le> exp (- 34)"
    using q(3) by linarith
  have ks: "2 + sqrt (- 2 * (1/5) * ln x) < 23 / 4"
    by (rule ks_term_less [OF _ x(1) c]) (simp_all add: power2_eq_square)
  have "sqrt (1/5) \<le> sqrt 1"
    unfolding real_sqrt_le_iff by simp
  then have "sqrt (1/5) \<le> 1"
    by (simp only: real_sqrt_one)
  then have ks2: "sqrt (1/5) + 1 < 23 / 4"
    by linarith
  have "(23 / 4)\<^sup>2 * (pi\<^sup>2 * (1/5)) \<le> (23 / 4)\<^sup>2 * (256 / 25 * (1/5 :: real))"
    using pi_sq_bounds(2) by simp
  also have "\<dots> \<le> 2 * 34"
    by (simp add: power2_eq_square)
  finally have kl: "23 / 4 \<le> sqrt (- 2 * ln q / (pi\<^sup>2 * (1/5)))"
    by (intro kl_term_ge [OF _ q(1) d]) simp_all
  have "max (2 + sqrt (- 2 * (1/5) * ln x)) (sqrt (1/5) + 1)
          < max (sqrt (- 2 * ln q / (pi\<^sup>2 * (1/5)))) (1 / (pi * sqrt (1/5)))"
    using ks ks2 kl by (simp add: less_max_iff_disj)
  moreover have "2 * sqrt (2 * pi * (1/5)) * (1/10^15) < 1" "pi * (1/5) * (1/10^15) < 1"
    using x(3) q1 unfolding x_def q_def by simp_all
  ultimately show ?thesis
    unfolding x_def q_def
    by (subst inner_func_row_normal) simp_all
qed

lemma inner_func_fresh:
  "fst (inner_func decision_func rt err) = map (\<lambda>r. inner_func_row r err) rt"
  by (simp add: inner_func_def decision_func_def Let_def)


lemma inner_func_row_slow_example: "inner_func_row (Fin (1/2)) (Fin (1/10^7)) = False"
proof -
  define q where "q = pi * (1/2) * (1/10^7)"
  define x where "x = 2 * sqrt (2 * pi * (1/2)) * (1/10^7)"
  have q: "0 < q" "3 / (2 * 10^7) \<le> q" "q \<le> 16 / 10^8"
    using pi_ge_3 pi_le_32 by (simp_all add: q_def)
  have q1: "q < 1"
    using q(3) by simp
  have "sqrt (2 * pi * (1/2)) \<le> sqrt (2\<^sup>2)"
    unfolding real_sqrt_le_iff using pi_le_32 by simp
  then have s2: "sqrt (2 * pi * (1/2)) \<le> 2"
    by simp
  have s0: "0 < sqrt (2 * pi * (1/2))"
    by simp
  have x: "0 < x" "x \<le> 4 / 10^7"
    using s0 s2 by (simp_all add: x_def)
  have x1: "x < 1"
    using x(2) by simp
  have "(4 / 10^7 :: real) \<le> 1 / (274 / 100) ^ 4"
    by (simp add: power_divide)
  moreover have "(1 / (274 / 100) ^ 4 :: real) \<le> exp (- 4)"
    using exp_minus_nat_ge [of 4] by simp
  ultimately have a: "x \<le> exp (- 4)"
    using x(2) by linarith
  have "1 / (269 / 100) ^ 36 \<le> (3 / (2 * 10^7) :: real)"
    by (simp add: power_divide)
  moreover have "exp (- 36) \<le> (1 / (269 / 100) ^ 36 :: real)"
    using exp_minus_nat_le [of 36] by simp
  ultimately have b: "exp (- 36) \<le> q"
    using q(2) by linarith
  have ks: "4 \<le> 2 + sqrt (- 2 * (1/2) * ln x)"
    by (rule ks_term_ge [OF _ x(1) a]) (simp_all add: power2_eq_square)
  have "2 * 36 \<le> 4\<^sup>2 * (9 * (1/2 :: real))"
    by (simp add: power2_eq_square)
  also have "\<dots> \<le> 4\<^sup>2 * (pi\<^sup>2 * (1/2))"
    using pi_sq_bounds(1) by simp
  finally have "sqrt (- 2 * ln q / (pi\<^sup>2 * (1/2))) \<le> 4"
    by (intro kl_term_le [OF _ q(1) b]) simp_all
  moreover have "1 / (pi * sqrt (1/2)) \<le> 4"
  proof -
    have "sqrt ((1/2)\<^sup>2) \<le> sqrt (1/2)"
      unfolding real_sqrt_le_iff by (simp add: power2_eq_square)
    then have "1/2 \<le> sqrt (1/2)"
      by simp
    then have "3 * (1/2) \<le> pi * sqrt (1/2)"
      using pi_ge_3 by (intro mult_mono) simp_all
    then have "1 / (pi * sqrt (1/2)) \<le> 1 / (3 * (1/2))"
      by (intro divide_left_mono) simp_all
    then show ?thesis by simp
  qed
  ultimately have kl: "max (sqrt (- 2 * ln q / (pi\<^sup>2 * (1/2)))) (1 / (pi * sqrt (1/2))) \<le> 4"
    by simp
  have "\<not> max (2 + sqrt (- 2 * (1/2) * ln x)) (sqrt (1/2) + 1)
          < max (sqrt (- 2 * ln q / (pi\<^sup>2 * (1/2)))) (1 / (pi * sqrt (1/2)))"
    using ks kl unfolding not_less by (meson order_trans max.cobounded1)
  moreover have "2 * sqrt (2 * pi * (1/2)) * (1/10^7) < 1" "pi * (1/2) * (1/10^7) < 1"
    using x1 q1 unfolding x_def q_def by simp_all
  ultimately show ?thesis
    unfolding x_def q_def
    by (subst inner_func_row_normal) simp_all
qed

lemma slow_series_negative: "slow_series (1/50) (1/2) 3 < 0"
proof -
  define A where "A = pi\<^sup>2 / 100"
  have s3: "sin (3 * pi / 2) = - 1"
    using sin_3over2_pi by (simp add: mult.commute)
  have l: "[1..3] = [1, 2, 3::int]"
    by (simp add: upto.simps)
  have v: "slow_series (1/50) (1/2) 3 = (exp (- A) - 3 * exp (- (9 * A))) * pi"
    unfolding slow_series_def l by (simp add: A_def s3 power2_eq_square)
  have "8 * A \<le> 1"
    using pi_sq_bounds(2) by (simp add: A_def)
  then have "exp (8 * A) \<le> exp 1"
    by simp
  then have "exp (8 * A) < 3"
    using exp_1_le by linarith
  moreover have "exp (- A) = exp (- (9 * A)) * exp (8 * A)"
    by (simp add: exp_add [symmetric])
  ultimately have "exp (- A) < 3 * exp (- (9 * A))"
    by simp
  then show ?thesis
    unfolding v by (simp add: mult_less_0_iff)
qed

lemma wfpt_ftt01w_slow_eq: "wfpt_ftt01w_slow tt w k_terms = ftt01w_slow tt w k_terms"
  by (simp add: wfpt_ftt01w_slow_def ftt01w_slow_def)

lemma wfpt_ftt01w_fresh:
  "fst (wfpt_ftt01w decision_func rt a w err k_terms)
   = map (\<lambda>rti. let p = switch (inner_func_row rti err)
                            (wfpt_ftt01w_fast (rti / a ^ 2) w k_terms)
                            (wfpt_ftt01w_slow (rti / a ^ 2) w k_terms)
                in p * as_float (flt_gt p 0)) rt"
proof -
  have "map f (zip rt (map g rt)) = map (\<lambda>x. f (x, g x)) rt" for f :: "flt \<times> bool \<Rightarrow> flt" and g
    by (induction rt) simp_all
  then show ?thesis
    by (simp add: wfpt_ftt01w_def split_beta inner_func_def decision_func_def Let_def)
qed


subsection \<open>The claims\<close>




text \<open>
  C4. Let every response of the data be non-zero, so that its sign encodes the choice, and
  let \<open>0 \<le> z \<le> 1\<close>.  Flipping the choice of every row (the response changes sign; the
  response time may change sign as well, since only its absolute value is used) and
  replacing \<open>v\<close> by \<open>-v\<close> and \<open>z\<close> by \<open>1 - z\<close> leaves the result of \<open>logp_ddm\<close>
  unchanged.
\<close>

theorem choice_flip_invariance:
  assumes "list_all2 choice_flipped data data'"
    and "\<forall>row \<in> set data. snd row \<noteq> 0"
    and "0 \<le> z" and "z \<le> 1"
  shows "logp_ddm data' (- v) a (1 - z) t err k_terms epsilon
         = logp_ddm data v a z t err k_terms epsilon"
proof -
  have rows: "map (logp_ddm_row (Fin (- v)) (Fin (a * 2)) (Fin (1 - z)) (Fin t) (Fin err) k_terms
                     (Fin epsilon)) data'
              = map (logp_ddm_row (Fin v) (Fin (a * 2)) (Fin z) (Fin t) (Fin err) k_terms
                     (Fin epsilon)) data"
    using assms(1,2)
  proof (induction rule: list_all2_induct)
    case Nil
    show ?case by simp
  next
    case (Cons row rows row' rows')
    then show ?case
      by (simp add: choice_flipped_def logp_ddm_row_flip)
  qed
  show ?thesis
    using assms(3,4) unfolding logp_ddm_def Let_def rows
    by (simp add: check_parameters_def)
qed

theorem choice_flip_invariance_witness:
  "logp_ddm [(- 4/5, - 1), (6/5, 1)] (- (1/2)) (6/5) (1 - 1/2) (1/5) (1/10^7) 10 (1/10^15)
   = logp_ddm [(4/5, 1), (- 6/5, - 1)] (1/2) (6/5) (1/2) (1/5) (1/10^7) 10 (1/10^15)"
  using choice_flip_invariance [where data = "[(4/5, 1), (- 6/5, - 1)]"
      and data' = "[(- 4/5, - 1), (6/5, 1)]" and z = "1/2" and v = "1/2" and a = "6/5"
      and t = "1/5" and err = "1/10^7" and k_terms = 10 and epsilon = "1/10^15"]
  by (simp add: choice_flipped_def)







text \<open>
  C7, as the code has it.  For \<open>tt > 0\<close> and \<open>k_terms \<ge> 1\<close>, \<open>ftt01w_fast\<close>, which
  subtracts the largest exponent \<open>c\<close> before exponentiating and multiplies by \<open>exp(c)\<close>
  afterwards, returns exactly the sum of \<open>(w + 2k) exp(-(w + 2k)\<^sup>2 / (2 tt))\<close> over the
  integers \<open>k\<close> from \<open>-floor((k_terms - 1) / 2)\<close> to \<open>ceil((k_terms - 1) / 2)\<close>,
  divided by \<open>sqrt(2 pi tt\<^sup>3)\<close>.
\<close>

theorem ftt01w_fast_is_unstabilised_sum:
  assumes "0 < tt" and "1 \<le> k_terms"
  shows "ftt01w_fast (Fin tt) (Fin w) k_terms
         = Fin ((\<Sum>k\<leftarrow>[- \<lfloor>real_of_int (k_terms - 1) / 2\<rfloor> .. \<lceil>real_of_int (k_terms - 1) / 2\<rceil>].
                   (w + 2 * real_of_int k) * exp (- ((w + 2 * real_of_int k)\<^sup>2) / (2 * tt)))
                / sqrt (2 * pi * tt ^ 3))"
  unfolding ftt01w_fast_Fin [OF assms] fast_series_def fast_range_def ..

theorem ftt01w_fast_is_unstabilised_sum_witness:
  "ftt01w_fast (Fin (1/4)) (Fin (1/2)) 3
   = Fin ((\<Sum>k\<leftarrow>[- \<lfloor>real_of_int (3 - 1) / 2\<rfloor> .. \<lceil>real_of_int (3 - 1) / 2\<rceil>].
             (1/2 + 2 * real_of_int k) * exp (- ((1/2 + 2 * real_of_int k)\<^sup>2) / (2 * (1/4))))
          / sqrt (2 * pi * (1/4) ^ 3))"
proof -
  have h: "(0::real) < 1/4" "(1::int) \<le> 3"
    by simp_all
  show ?thesis
    by (rule ftt01w_fast_is_unstabilised_sum [OF h])
qed

text \<open>
  C7 as stated fails: with the index running from \<open>ceil((k_terms - 1) / 2)\<close> to
  \<open>floor((k_terms - 1) / 2)\<close>, the range is empty for \<open>k_terms = 2\<close> and the sum is 0,
  whereas \<open>ftt01w_fast\<close> sums the terms \<open>k = 0\<close> and \<open>k = 1\<close>, which are positive.
\<close>

theorem fast_range_counterexample:
  "ftt01w_fast (Fin 1) (Fin (1/2)) 2 \<noteq> Fin (fast_series 1 (1/2) (claimed_range 2))"
proof -
  have "\<lfloor>(1::real) / 2\<rfloor> = 0" "\<lceil>(1::real) / 2\<rceil> = 1"
    by (simp_all add: ceiling_eq_iff)
  then have c: "claimed_range 2 = []"
    by (simp add: claimed_range_def)
  have z: "fast_series 1 (1/2) [] = 0"
    by (simp add: fast_series_def)
  have "0 < fast_series 1 (1/2) [0, 1]"
    by (simp add: fast_series_def add_pos_pos)
  then have "ftt01w_fast (Fin 1) (Fin (1/2)) 2 \<noteq> Fin 0"
    by (simp add: ftt01w_fast_Fin fast_range_2)
  then show ?thesis
    unfolding c z .
qed




text \<open>
  C6 as stated fails for \<open>ftt01w\<close> of wfpt.py: at the same input the indicator is 0 and
  the slow expansion is negative, and the function returns 0, not the slow value, because
  of its last line \<open>p * (p > 0)\<close>.
\<close>

theorem masked_output_is_not_slow_value:
  "inner_func_row (Fin (1/2)) (Fin (1/10^7)) = False
   \<and> fst (wfpt_ftt01w decision_func [Fin (1/2)] (Fin 5) (Fin (1/2)) (Fin (1/10^7)) 3) = [Fin 0]
   \<and> fst (wfpt_ftt01w decision_func [Fin (1/2)] (Fin 5) (Fin (1/2)) (Fin (1/10^7)) 3)
       \<noteq> [wfpt_ftt01w_slow (Fin (1/2) / Fin 5 ^ 2) (Fin (1/2)) 3]"
proof -
  have tt: "Fin (1/2) / Fin 5 ^ 2 = Fin (1/50)"
    by (simp add: Fin_power)
  have sl: "wfpt_ftt01w_slow (Fin (1/50)) (Fin (1/2)) 3 = Fin (slow_series (1/50) (1/2) 3)"
    by (simp only: wfpt_ftt01w_slow_eq ftt01w_slow_Fin)
  have ne: "slow_series (1/50) (1/2) 3 \<noteq> 0" "\<not> 0 < slow_series (1/50) (1/2) 3"
    using slow_series_negative by simp_all
  have out: "fst (wfpt_ftt01w decision_func [Fin (1/2)] (Fin 5) (Fin (1/2)) (Fin (1/10^7)) 3)
             = [Fin 0]"
    unfolding wfpt_ftt01w_fresh list.map inner_func_row_slow_example tt switch_def
    using ne(2) by (simp add: sl Let_def flt_gt_def zero_flt_def as_float_def)
  show ?thesis
    unfolding out tt sl inner_func_row_slow_example using ne(1) by simp
qed

text \<open>
  C6, as the code has it.  For \<open>rt > 0\<close>, \<open>a \<noteq> 0\<close> and \<open>k_terms \<ge> 1\<close> both expansions
  are finite, and the blend \<open>lambda_rt * p_fast + (1 - lambda_rt) * p_slow\<close> of
  analytical.py is exactly the fast value where \<open>compute_k\<close> is true and exactly the
  slow value where it is false.  In wfpt.py the \<open>switch\<close> selects in the same way, and the
  value returned is the selected one where it is positive and 0 times it elsewhere.
\<close>

theorem select_exact_then_masked:
  assumes "0 < rt" and "a \<noteq> 0" and "1 \<le> k_terms"
  shows "ftt01w (Fin rt) (Fin a) (Fin w) (Fin err) k_terms
         = (if compute_k (Fin rt) (Fin err) then ftt01w_fast (Fin rt / Fin a ^ 2) (Fin w) k_terms
            else ftt01w_slow (Fin rt / Fin a ^ 2) (Fin w) k_terms)
       \<and> fst (wfpt_ftt01w decision_func rts a' w' err' k_terms')
         = map (\<lambda>rti. let p = (if inner_func_row rti err'
                                then wfpt_ftt01w_fast (rti / a' ^ 2) w' k_terms'
                                else wfpt_ftt01w_slow (rti / a' ^ 2) w' k_terms')
                      in (if flt_lt 0 p then p else p * 0)) rts"
proof -
  have tt: "Fin rt / Fin a ^ 2 = Fin (rt / a\<^sup>2)"
    using assms(2) by (simp add: Fin_power)
  have "0 < rt / a\<^sup>2"
    using assms(1,2) by simp
  then have one: "ftt01w (Fin rt) (Fin a) (Fin w) (Fin err) k_terms
         = (if compute_k (Fin rt) (Fin err) then ftt01w_fast (Fin rt / Fin a ^ 2) (Fin w) k_terms
            else ftt01w_slow (Fin rt / Fin a ^ 2) (Fin w) k_terms)"
    unfolding tt by (simp add: ftt01w_Fin [OF assms] ftt01w_value_def ftt01w_fast_Fin assms(3)
        ftt01w_slow_Fin)
  have m: "p * as_float (flt_gt p 0) = (if flt_lt 0 p then p else p * 0)" for p
    by (simp add: as_float_def flt_gt_def zero_flt_def one_flt_def [symmetric])
  have two: "fst (wfpt_ftt01w decision_func rts a' w' err' k_terms')
         = map (\<lambda>rti. let p = (if inner_func_row rti err'
                                then wfpt_ftt01w_fast (rti / a' ^ 2) w' k_terms'
                                else wfpt_ftt01w_slow (rti / a' ^ 2) w' k_terms')
                      in (if flt_lt 0 p then p else p * 0)) rts"
    unfolding wfpt_ftt01w_fresh switch_def m ..
  show ?thesis
    using one two by simp
qed

theorem select_exact_then_masked_witness:
  "ftt01w (Fin (1/2)) (Fin 5) (Fin (1/2)) (Fin (1/10^7)) 3
   = (if compute_k (Fin (1/2)) (Fin (1/10^7))
      then ftt01w_fast (Fin (1/2) / Fin 5 ^ 2) (Fin (1/2)) 3
      else ftt01w_slow (Fin (1/2) / Fin 5 ^ 2) (Fin (1/2)) 3)"
proof -
  have h: "(0::real) < 1/2" "(5::real) \<noteq> 0" "(1::int) \<le> 3"
    by simp_all
  show ?thesis
    using select_exact_then_masked [OF h] by simp
qed

text \<open>
  C9. The two regime selectors differ: \<open>compute_k\<close> takes the logarithm of
  \<open>2 sqrt(pi rt err) err\<close> where \<open>inner_func\<close> takes that of \<open>2 sqrt(2 pi rt) err\<close>.  At
  \<open>rt = 0.2\<close> and \<open>err = 1e-15\<close> every intermediate value is finite: \<open>compute_k\<close>
  finds \<open>ks \<ge> 6.4 \<ge> kl\<close> and answers false, the closure of wfpt.py, called for the
  first time, finds \<open>ks < 5.75 \<le> kl\<close> and answers true.
\<close>

theorem regime_selectors_disagree:
  "compute_k (Fin (1/5)) (Fin (1/10^15)) = False
   \<and> inner_func_row (Fin (1/5)) (Fin (1/10^15)) = True
   \<and> fst (inner_func decision_func [Fin (1/5)] (Fin (1/10^15))) = [True]
   \<and> (\<exists>rt err. 0 < rt \<and> 0 < err
         \<and> fst (inner_func decision_func [Fin rt] (Fin err)) \<noteq> [compute_k (Fin rt) (Fin err)])"
proof -
  have d: "fst (inner_func decision_func [Fin (1/5)] (Fin (1/10^15)))
           \<noteq> [compute_k (Fin (1/5)) (Fin (1/10^15))]"
    by (simp only: inner_func_fresh list.map compute_k_example inner_func_row_example) simp
  have "(0::real) < 1/5 \<and> (0::real) < 1/10^15
        \<and> fst (inner_func decision_func [Fin (1/5)] (Fin (1/10^15)))
          \<noteq> [compute_k (Fin (1/5)) (Fin (1/10^15))]"
    using d by simp
  then have "\<exists>rt err. 0 < rt \<and> 0 < err
         \<and> fst (inner_func decision_func [Fin rt] (Fin err)) \<noteq> [compute_k (Fin rt) (Fin err)]"
    by blast
  then show ?thesis
    by (simp only: inner_func_fresh list.map compute_k_example inner_func_row_example)
qed

end
